theory Spec2Isabelle
  imports Complex_Main
begin

section \<open>Urban fire spread model (backend/fire\_model.py)\<close>

text \<open>
  The model follows \<^verbatim>\<open>class UrbanFireModel\<close> function by function.

  Numbers. Python's \<^verbatim>\<open>float\<close> is modelled by \<^typ>\<open>real\<close>: every arithmetic
  operation and every function of the \<^verbatim>\<open>math\<close> module is the exact real operation,
  so the rounding error of double precision, overflow, infinities, NaN and the sign of
  zero are outside the model. \<^verbatim>\<open>time_steps\<close> and the loop counter are Python integers
  (\<^typ>\<open>int\<close>); \<^verbatim>\<open>range\<close> accepts nothing else.

  Exceptions are values: a function that can raise returns \<open>error + 'a\<close>.
\<close>

datatype error = ZeroDivisionError | TypeError | ValueError

subsection \<open>Built-ins used by the model\<close>

text \<open>\<^verbatim>\<open>a / b\<close> on numbers: raises on a zero divisor.\<close>

definition py_div :: "real \<Rightarrow> real \<Rightarrow> error + real" where
  "py_div a b = (if b = 0 then Inl ZeroDivisionError else Inr (a / b))"

text \<open>
  \<^verbatim>\<open>round(x, n)\<close> on a float rounds to the nearest multiple of \<open>10\<^sup>-\<^sup>n\<close>, a tie going
  to the even neighbour.
\<close>

definition round_half_even :: "real \<Rightarrow> int" where
  "round_half_even x =
     (let f = \<lfloor>x\<rfloor>; d = x - of_int f
      in if d < 1 / 2 then f
         else if 1 / 2 < d then f + 1
         else if even f then f else f + 1)"

definition py_round :: "real \<Rightarrow> nat \<Rightarrow> real" where
  "py_round x n = of_int (round_half_even (x * 10 ^ n)) / 10 ^ n"

text \<open>
  \<^verbatim>\<open>x ** y\<close> on floats. A negative base with a non-integral exponent gives a
  \<^verbatim>\<open>complex\<close> number, here \<open>Inr None\<close>: the model never needs its value, since every
  path it takes ends in \<^verbatim>\<open>round\<close>, which raises \<^verbatim>\<open>TypeError\<close> on a complex argument.
  \<^verbatim>\<open>0.0 ** y\<close> is \<open>0\<close> for positive \<open>y\<close>, \<open>1\<close> for \<open>y = 0\<close> and raises for negative \<open>y\<close>.
\<close>

definition py_pow :: "real \<Rightarrow> real \<Rightarrow> error + real option" where
  "py_pow x y =
     (if 0 < x then Inr (Some (x powr y))
      else if x = 0 then
        (if 0 < y then Inr (Some 0)
         else if y = 0 then Inr (Some 1)
         else Inl ZeroDivisionError)
      else if y = of_int \<lfloor>y\<rfloor> then Inr (Some (x powi \<lfloor>y\<rfloor>))
      else Inr None)"

text \<open>\<^verbatim>\<open>math.radians\<close>, \<^verbatim>\<open>math.degrees\<close>, \<^verbatim>\<open>math.asin\<close>, \<^verbatim>\<open>math.atan2\<close>.\<close>

definition radians :: "real \<Rightarrow> real" where
  "radians x = x * (pi / 180)"

definition degrees :: "real \<Rightarrow> real" where
  "degrees x = x * (180 / pi)"

definition py_asin :: "real \<Rightarrow> error + real" where
  "py_asin x = (if - 1 \<le> x \<and> x \<le> 1 then Inr (arcsin x) else Inl ValueError)"

definition atan2 :: "real \<Rightarrow> real \<Rightarrow> real" where
  "atan2 y x =
     (if 0 < x then arctan (y / x)
      else if x < 0 then (if 0 \<le> y then arctan (y / x) + pi else arctan (y / x) - pi)
      else if 0 < y then pi / 2
      else if y < 0 then - (pi / 2)
      else 0)"

subsection \<open>Data\<close>

record UrbanFireModel =
  CFD_CONSTANT :: real
  FUEL_ENERGY :: real
  PACKING_RATIO :: real
  WIND_COEFFICIENT :: real
  WIND_EXPONENT :: real
  FUEL_MOISTURE :: real
  FUEL_DENSITY :: real
  FUEL_DEPTH :: real

text \<open>\<^verbatim>\<open>__init__\<close>\<close>

definition init :: UrbanFireModel where
  "init = \<lparr> CFD_CONSTANT = 0.22, FUEL_ENERGY = 3000, PACKING_RATIO = 0.8,
            WIND_COEFFICIENT = 0.4, WIND_EXPONENT = 0.02526, FUEL_MOISTURE = 0.035,
            FUEL_DENSITY = 780, FUEL_DEPTH = 2 \<rparr>"

text \<open>The dictionaries that \<^verbatim>\<open>simulate\<close> builds, one record per shape.\<close>

record Point =
  lat :: real
  lon :: real

record FireZone =
  step :: int
  time :: real
  distance :: real
  intensity :: real
  perimeter :: "Point list"

record Parameters =
  baseWind :: real
  urbanWind :: real
  spreadRate :: real
  buildingDensity :: real
  timeSteps :: int
  timeInterval :: real

record Summary =
  totalTime :: real
  maxDistance :: real
  affectedArea :: real

record SimulationResult =
  origin :: Point
  parameters :: Parameters
  zones :: "FireZone list"
  summary :: Summary

subsection \<open>The methods\<close>

definition calculate_urban_wind :: "UrbanFireModel \<Rightarrow> real \<Rightarrow> real \<Rightarrow> real \<Rightarrow> error + real" where
  "calculate_urban_wind self base_wind_speed building_height street_width =
     (case py_div building_height street_width of
        Inl e \<Rightarrow> Inl e
      | Inr aspect_ratio \<Rightarrow>
          (let urban_wind = base_wind_speed * (1 + CFD_CONSTANT self * aspect_ratio)
           in Inr (py_round urban_wind 2)))"

text \<open>
  In \<^verbatim>\<open>calculate_spread_rate\<close> the power is taken first, then the denominator and the
  density factor are computed, then \<^verbatim>\<open>numerator / denominator\<close> (which raises on a zero
  denominator, for a complex numerator too), and \<^verbatim>\<open>round\<close> comes last.
\<close>

definition calculate_spread_rate :: "UrbanFireModel \<Rightarrow> real \<Rightarrow> real \<Rightarrow> error + real" where
  "calculate_spread_rate self wind_speed building_density =
     (let wind_ms = wind_speed / 3.6 in
      case py_pow wind_ms (WIND_EXPONENT self) of
        Inl e \<Rightarrow> Inl e
      | Inr p \<Rightarrow>
          (let denominator = FUEL_MOISTURE self * FUEL_DEPTH self * FUEL_DENSITY self;
               density_factor = 1 - building_density / 100
           in if denominator = 0 then Inl ZeroDivisionError
              else case p of
                None \<Rightarrow> Inl TypeError
              | Some w \<Rightarrow>
                  (let numerator = FUEL_ENERGY self * PACKING_RATIO self
                                     * (1 + WIND_COEFFICIENT self * w);
                       spread_rate = (numerator / denominator) * density_factor
                   in Inr (py_round spread_rate 3))))"

definition calculate_spread_direction ::
    "UrbanFireModel \<Rightarrow> real \<Rightarrow> real \<Rightarrow> real \<Rightarrow> real \<Rightarrow> error + real \<times> real" where
  "calculate_spread_direction self origin_lat origin_lon angle_deg distance_m =
     (let R = 6371000;
          lat1 = radians origin_lat;
          lon1 = radians origin_lon;
          angle_rad = radians angle_deg
      in case py_asin (sin lat1 * cos (distance_m / R)
                       + cos lat1 * sin (distance_m / R) * cos angle_rad) of
           Inl e \<Rightarrow> Inl e
         | Inr lat2 \<Rightarrow>
             (let lon2 = lon1 + atan2 (sin angle_rad * sin (distance_m / R) * cos lat1)
                                      (cos (distance_m / R) - sin lat1 * sin lat2)
              in Inr (degrees lat2, degrees lon2)))"

text \<open>
  The inner loop of \<^verbatim>\<open>simulate\<close>, \<^verbatim>\<open>for i in range(num_directions)\<close>: the list argument is
  what is left of the range, the last argument is \<^verbatim>\<open>perimeter_points\<close>.
\<close>

fun perimeter_loop ::
    "UrbanFireModel \<Rightarrow> real \<Rightarrow> real \<Rightarrow> real \<Rightarrow> nat \<Rightarrow> nat list \<Rightarrow> Point list
       \<Rightarrow> error + Point list" where
  "perimeter_loop self origin_lat origin_lon distance_m num_directions [] perimeter_points =
     Inr perimeter_points"
| "perimeter_loop self origin_lat origin_lon distance_m num_directions (i # rest) perimeter_points =
     (let angle = (360 / real num_directions) * real i
      in case calculate_spread_direction self origin_lat origin_lon angle distance_m of
           Inl e \<Rightarrow> Inl e
         | Inr (new_lat, new_lon) \<Rightarrow>
             perimeter_loop self origin_lat origin_lon distance_m num_directions rest
               (perimeter_points @ [\<lparr> lat = new_lat, lon = new_lon \<rparr>]))"

text \<open>
  The outer loop, \<^verbatim>\<open>for step in range(1, time_steps + 1)\<close>: the list argument is what is
  left of the range, the last argument is \<^verbatim>\<open>fire_zones\<close>. The loop variable is \<open>k\<close> here.
\<close>

fun zone_loop ::
    "UrbanFireModel \<Rightarrow> real \<Rightarrow> real \<Rightarrow> real \<Rightarrow> real \<Rightarrow> int \<Rightarrow> int list \<Rightarrow> FireZone list
       \<Rightarrow> error + FireZone list" where
  "zone_loop self origin_lat origin_lon spread_rate time_interval time_steps [] fire_zones =
     Inr fire_zones"
| "zone_loop self origin_lat origin_lon spread_rate time_interval time_steps (k # rest) fire_zones =
     (let distance_m = spread_rate * time_interval * of_int k
      in case py_div (of_int k) (of_int time_steps) of
           Inl e \<Rightarrow> Inl e
         | Inr q \<Rightarrow>
             (let intensity_k = 1.0 - q * 0.5;
                  num_directions = 16
              in case perimeter_loop self origin_lat origin_lon distance_m num_directions
                        [0..<num_directions] [] of
                   Inl e \<Rightarrow> Inl e
                 | Inr perimeter_points \<Rightarrow>
                     zone_loop self origin_lat origin_lon spread_rate time_interval time_steps rest
                       (fire_zones @
                          [\<lparr> step = k,
                             time = of_int k * time_interval,
                             distance = py_round distance_m 2,
                             intensity = py_round intensity_k 3,
                             perimeter = perimeter_points \<rparr>])))"

text \<open>
  \<^verbatim>\<open>simulate\<close>. Its defaults are \<^verbatim>\<open>wind_speed=15\<close>, \<^verbatim>\<open>building_density=40\<close>,
  \<^verbatim>\<open>time_steps=10\<close>, \<^verbatim>\<open>time_interval=5\<close>; \<^verbatim>\<open>calculate_urban_wind\<close> is called with its own
  defaults \<^verbatim>\<open>building_height=20\<close>, \<^verbatim>\<open>street_width=15\<close>.
\<close>

definition simulate ::
    "UrbanFireModel \<Rightarrow> real \<Rightarrow> real \<Rightarrow> real \<Rightarrow> real \<Rightarrow> int \<Rightarrow> real \<Rightarrow> error + SimulationResult" where
  "simulate self origin_lat origin_lon wind_speed building_density time_steps time_interval =
     (case calculate_urban_wind self wind_speed 20 15 of
        Inl e \<Rightarrow> Inl e
      | Inr urban_wind \<Rightarrow>
          (case calculate_spread_rate self urban_wind building_density of
             Inl e \<Rightarrow> Inl e
           | Inr spread_rate \<Rightarrow>
               (case zone_loop self origin_lat origin_lon spread_rate time_interval time_steps
                       [1..time_steps] [] of
                  Inl e \<Rightarrow> Inl e
                | Inr fire_zones \<Rightarrow>
                    Inr \<lparr> origin = \<lparr> lat = origin_lat, lon = origin_lon \<rparr>,
                          parameters =
                            \<lparr> baseWind = wind_speed,
                              urbanWind = urban_wind,
                              spreadRate = spread_rate,
                              buildingDensity = building_density,
                              timeSteps = time_steps,
                              timeInterval = time_interval \<rparr>,
                          zones = fire_zones,
                          summary =
                            \<lparr> totalTime = of_int time_steps * time_interval,
                              maxDistance =
                                py_round (spread_rate * time_interval * of_int time_steps) 2,
                              affectedArea =
                                py_round (pi * (spread_rate * time_interval * of_int time_steps)\<^sup>2) 2
                            \<rparr> \<rparr>)))"

subsection \<open>What one iteration of the outer loop appends\<close>

text \<open>
  \<open>zone_at_step \<dots> k z\<close> says that \<open>z\<close> is the dictionary appended to \<^verbatim>\<open>fire_zones\<close> in
  the iteration \<^verbatim>\<open>step = k\<close>: the five entries as the loop body computes them, the
  perimeter being the 16 results of \<^verbatim>\<open>calculate_spread_direction\<close> at the angles
  \<open>22.5 * i\<close>, in the order of \<open>i\<close>. It is a predicate of the proofs, no part of the program.
\<close>
definition zone_at_step ::
    "UrbanFireModel \<Rightarrow> real \<Rightarrow> real \<Rightarrow> real \<Rightarrow> real \<Rightarrow> int \<Rightarrow> int \<Rightarrow> FireZone \<Rightarrow> bool" where
  "zone_at_step self origin_lat origin_lon spread_rate time_interval time_steps k z \<longleftrightarrow>
     step z = k \<and>
     time z = of_int k * time_interval \<and>
     distance z = py_round (spread_rate * time_interval * of_int k) 2 \<and>
     intensity z = py_round (1 - (of_int k / of_int time_steps) * 0.5) 3 \<and>
     list_all2
       (\<lambda>i p. calculate_spread_direction self origin_lat origin_lon (22.5 * real i)
                  (spread_rate * time_interval * of_int k) = Inr (lat p, lon p))
       [0..<16] (perimeter z)"

section \<open>Properties\<close>

subsection \<open>Rounding\<close>

lemma rhe_upper: "of_int (round_half_even x) \<le> x + 1 / 2"
  unfolding round_half_even_def Let_def by (auto; linarith)

lemma rhe_lower: "x - 1 / 2 \<le> of_int (round_half_even x)"
  unfolding round_half_even_def Let_def by (auto; linarith)

lemma rhe_of_int: "round_half_even (of_int n) = n"
  unfolding round_half_even_def Let_def by simp

lemma rhe_ge_floor: "\<lfloor>x\<rfloor> \<le> round_half_even x"
  unfolding round_half_even_def Let_def by auto

lemma rhe_le_floor1: "round_half_even x \<le> \<lfloor>x\<rfloor> + 1"
  unfolding round_half_even_def Let_def by auto

lemma rhe_mono:
  assumes "x \<le> y"
  shows "round_half_even x \<le> round_half_even y"
proof (cases "\<lfloor>x\<rfloor> = \<lfloor>y\<rfloor>")
  case True
  with assms show ?thesis
    unfolding round_half_even_def Let_def by auto
next
  case False
  with assms have "\<lfloor>x\<rfloor> < \<lfloor>y\<rfloor>"
    by (simp add: floor_mono order.not_eq_order_implies_strict)
  with rhe_ge_floor[of y] rhe_le_floor1[of x] show ?thesis by linarith
qed

lemma rhe_small: "\<bar>x\<bar> < 1 / 2 \<Longrightarrow> round_half_even x = 0"
  using rhe_upper[of x] rhe_lower[of x] by linarith

lemma py_round_mono: "x \<le> y \<Longrightarrow> py_round x n \<le> py_round y n"
  unfolding py_round_def by (simp add: divide_right_mono rhe_mono)

lemma py_round_of_int: "py_round (of_int m / 10 ^ n) n = of_int m / 10 ^ n"
  unfolding py_round_def by (simp add: rhe_of_int)

lemma py_round_zero: "py_round 0 n = 0"
  using py_round_of_int[of 0 n] by simp

lemma py_round_nonneg: "0 \<le> x \<Longrightarrow> 0 \<le> py_round x n"
  using py_round_mono[of 0 x n] by (simp add: py_round_zero)

lemma py_round_nonpos: "x \<le> 0 \<Longrightarrow> py_round x n \<le> 0"
  using py_round_mono[of x 0 n] by (simp add: py_round_zero)

lemma py_round_upper: "py_round x n \<le> x + 1 / (2 * 10 ^ n)"
proof -
  have "of_int (round_half_even (x * 10 ^ n)) / 10 ^ n \<le> (x * 10 ^ n + 1 / 2) / 10 ^ n"
    by (rule divide_right_mono[OF rhe_upper]) simp
  then show ?thesis unfolding py_round_def by (simp add: field_simps)
qed

lemma py_round_lower: "x - 1 / (2 * 10 ^ n) \<le> py_round x n"
proof -
  have "(x * 10 ^ n - 1 / 2) / 10 ^ n \<le> of_int (round_half_even (x * 10 ^ n)) / 10 ^ n"
    by (rule divide_right_mono[OF rhe_lower]) simp
  then show ?thesis unfolding py_round_def by (simp add: field_simps)
qed

subsection \<open>The loops return\<close>

text \<open>
  The argument of \<^verbatim>\<open>math.asin\<close> is a convex combination of \<open>sin (a + d)\<close> and
  \<open>sin (a - d)\<close>, so in exact arithmetic it lies in \<open>[-1, 1]\<close> and \<^verbatim>\<open>ValueError\<close> is never
  raised. The bound is attained: at bearing 0 the argument is \<open>sin (a + d)\<close>, which is \<open>1\<close>
  when the point falls on the pole. The program computes the argument in double precision
  and does not clamp it, so that there it can come out as \<open>1.0000000000000002\<close> and
  \<^verbatim>\<open>math.asin\<close> raises. Every statement below that the loops or \<^verbatim>\<open>simulate\<close> return is
  therefore one of exact arithmetic; \<open>simulate_returned\<close> and what follows from it hold of
  every result that is returned.
\<close>

lemma asin_argument_bounded:
  fixes a d c :: real
  assumes "- 1 \<le> c" "c \<le> 1"
  shows "- 1 \<le> sin a * cos d + cos a * sin d * c" "sin a * cos d + cos a * sin d * c \<le> 1"
proof -
  have eq: "sin a * cos d + cos a * sin d * c
            = (1 + c) / 2 * sin (a + d) + (1 - c) / 2 * sin (a - d)"
    by (simp add: sin_add sin_diff field_simps)
  have u: "0 \<le> (1 + c) / 2" and v: "0 \<le> (1 - c) / 2" using assms by simp_all
  have "(1 + c) / 2 * sin (a + d) \<le> (1 + c) / 2 * 1"
    by (rule mult_left_mono[OF _ u]) simp
  moreover have "(1 - c) / 2 * sin (a - d) \<le> (1 - c) / 2 * 1"
    by (rule mult_left_mono[OF _ v]) simp
  ultimately show "sin a * cos d + cos a * sin d * c \<le> 1"
    unfolding eq by (simp add: field_simps)
  have "(1 + c) / 2 * (- 1) \<le> (1 + c) / 2 * sin (a + d)"
    by (rule mult_left_mono[OF _ u]) simp
  moreover have "(1 - c) / 2 * (- 1) \<le> (1 - c) / 2 * sin (a - d)"
    by (rule mult_left_mono[OF _ v]) simp
  ultimately show "- 1 \<le> sin a * cos d + cos a * sin d * c"
    unfolding eq by (simp add: field_simps)
qed

lemma calculate_spread_direction_returns:
  "\<exists>new_lat new_lon.
     calculate_spread_direction self origin_lat origin_lon angle_deg distance_m
       = Inr (new_lat, new_lon)"
  unfolding calculate_spread_direction_def py_asin_def Let_def
  using asin_argument_bounded[of "cos (radians angle_deg)" "radians origin_lat" "distance_m / 6371000"]
  by simp

lemma perimeter_loop_returns:
  "\<exists>ps. perimeter_loop self origin_lat origin_lon distance_m n todo acc = Inr (acc @ ps) \<and>
        list_all2
          (\<lambda>i p. calculate_spread_direction self origin_lat origin_lon ((360 / real n) * real i)
                     distance_m = Inr (lat p, lon p))
          todo ps"
proof (induction todo arbitrary: acc)
  case Nil
  show ?case by simp
next
  case (Cons i rest)
  obtain a b where ab:
    "calculate_spread_direction self origin_lat origin_lon ((360 / real n) * real i) distance_m
       = Inr (a, b)"
    using calculate_spread_direction_returns by blast
  from Cons.IH[of "acc @ [\<lparr> lat = a, lon = b \<rparr>]"] obtain ps where
    ps: "perimeter_loop self origin_lat origin_lon distance_m n rest (acc @ [\<lparr> lat = a, lon = b \<rparr>])
           = Inr ((acc @ [\<lparr> lat = a, lon = b \<rparr>]) @ ps)"
    and all: "list_all2
          (\<lambda>i p. calculate_spread_direction self origin_lat origin_lon ((360 / real n) * real i)
                     distance_m = Inr (lat p, lon p))
          rest ps"
    by blast
  show ?case
    using ab ps all by (intro exI[of _ "\<lparr> lat = a, lon = b \<rparr> # ps"]) simp
qed

lemma zone_loop_returns:
  assumes "time_steps \<noteq> 0 \<or> todo = []"
  shows "\<exists>zs. zone_loop self origin_lat origin_lon spread_rate time_interval time_steps todo acc
               = Inr (acc @ zs) \<and>
              list_all2 (zone_at_step self origin_lat origin_lon spread_rate time_interval time_steps)
                todo zs"
  using assms
proof (induction todo arbitrary: acc)
  case Nil
  show ?case by simp
next
  case (Cons k rest)
  then have nz: "time_steps \<noteq> 0" by simp
  obtain ps where
    ps: "perimeter_loop self origin_lat origin_lon (spread_rate * time_interval * of_int k) 16
           [0..<16] [] = Inr ps"
    and all: "list_all2
          (\<lambda>i p. calculate_spread_direction self origin_lat origin_lon ((360 / real 16) * real i)
                     (spread_rate * time_interval * of_int k) = Inr (lat p, lon p))
          [0..<16] ps"
    using perimeter_loop_returns[of self origin_lat origin_lon
            "spread_rate * time_interval * of_int k" 16 "[0..<16]" "[]"]
    by auto
  define z where "z = \<lparr> step = k, time = of_int k * time_interval,
                        distance = py_round (spread_rate * time_interval * of_int k) 2,
                        intensity = py_round (1.0 - (of_int k / of_int time_steps) * 0.5) 3,
                        perimeter = ps \<rparr>"
  have zk: "zone_at_step self origin_lat origin_lon spread_rate time_interval time_steps k z"
    using all unfolding zone_at_step_def z_def by simp
  from Cons.IH[of "acc @ [z]"] nz obtain zs where
    zs: "zone_loop self origin_lat origin_lon spread_rate time_interval time_steps rest (acc @ [z])
           = Inr ((acc @ [z]) @ zs)"
    and allz: "list_all2
          (zone_at_step self origin_lat origin_lon spread_rate time_interval time_steps) rest zs"
    by blast
  have "zone_loop self origin_lat origin_lon spread_rate time_interval time_steps (k # rest) acc
          = Inr (acc @ z # zs)"
    using nz ps zs by (simp add: py_div_def z_def)
  with zk allz show ?case by (intro exI[of _ "z # zs"]) simp
qed

lemma simulate_returned:
  assumes "simulate self la lo w d N ti = Inr r"
  obtains uw sr where
    "calculate_urban_wind self w 20 15 = Inr uw"
    "calculate_spread_rate self uw d = Inr sr"
    "list_all2 (zone_at_step self la lo sr ti N) [1..N] (zones r)"
    "parameters r = \<lparr> baseWind = w, urbanWind = uw, spreadRate = sr,
                       buildingDensity = d, timeSteps = N, timeInterval = ti \<rparr>"
proof -
  from assms obtain uw where uw: "calculate_urban_wind self w 20 15 = Inr uw"
    unfolding simulate_def by (cases "calculate_urban_wind self w 20 15") simp_all
  from assms uw obtain sr where sr: "calculate_spread_rate self uw d = Inr sr"
    unfolding simulate_def by (cases "calculate_spread_rate self uw d") simp_all
  have "N \<noteq> 0 \<or> [1..N] = []" by auto
  from zone_loop_returns[OF this, of self la lo sr ti "[]"] obtain zs where
    zs: "zone_loop self la lo sr ti N [1..N] [] = Inr zs" and
    allz: "list_all2 (zone_at_step self la lo sr ti N) [1..N] zs"
    by auto
  from assms uw sr zs have
    "r = \<lparr> origin = \<lparr> lat = la, lon = lo \<rparr>,
           parameters = \<lparr> baseWind = w, urbanWind = uw, spreadRate = sr,
                          buildingDensity = d, timeSteps = N, timeInterval = ti \<rparr>,
           zones = zs,
           summary = \<lparr> totalTime = of_int N * ti,
                       maxDistance = py_round (sr * ti * of_int N) 2,
                       affectedArea = py_round (pi * (sr * ti * of_int N)\<^sup>2) 2 \<rparr> \<rparr>"
    unfolding simulate_def by simp
  then have "zones r = zs"
    and "parameters r = \<lparr> baseWind = w, urbanWind = uw, spreadRate = sr,
                       buildingDensity = d, timeSteps = N, timeInterval = ti \<rparr>"
    by simp_all
  with uw sr allz show thesis by (intro that[of uw sr]) simp_all
qed

subsection \<open>The model at the constants of \<^verbatim>\<open>__init__\<close>\<close>

lemma calculate_urban_wind_init:
  "calculate_urban_wind init b h w =
     (if w = 0 then Inl ZeroDivisionError else Inr (py_round (b * (1 + 0.22 * (h / w))) 2))"
  unfolding calculate_urban_wind_def py_div_def init_def by simp

lemma py_pow_fraction:
  assumes "0 < y" "y < 1"
  shows "py_pow x y = (if x < 0 then Inr None else Inr (Some (x powr y)))"
proof -
  have "\<lfloor>y\<rfloor> = 0" using assms by (simp add: floor_eq_iff)
  then have "y \<noteq> of_int \<lfloor>y\<rfloor>" using assms by simp
  then show ?thesis using assms unfolding py_pow_def by auto
qed

lemma calculate_spread_rate_init:
  "calculate_spread_rate init w d =
     (if w < 0 then Inl TypeError
      else Inr (py_round (((3000 * 0.8 * (1 + 0.4 * (w / 3.6) powr 0.02526)) / (0.035 * 2 * 780))
                            * (1 - d / 100)) 3))"
proof -
  have e: "0 < WIND_EXPONENT init" "WIND_EXPONENT init < 1" by (simp_all add: init_def)
  have p: "py_pow (w / 3.6) (WIND_EXPONENT init)
             = (if w < 0 then Inr None else Inr (Some ((w / 3.6) powr 0.02526)))"
    unfolding py_pow_fraction[OF e] by (simp add: init_def)
  show ?thesis
    unfolding calculate_spread_rate_def Let_def p by (simp add: init_def)
qed

lemma simulate_returns:
  assumes "0 \<le> w"
  shows "\<exists>uw sr zs.
           calculate_urban_wind init w 20 15 = Inr uw \<and> 0 \<le> uw \<and>
           calculate_spread_rate init uw d = Inr sr \<and>
           list_all2 (zone_at_step init la lo sr ti N) [1..N] zs \<and>
           simulate init la lo w d N ti =
             Inr \<lparr> origin = \<lparr> lat = la, lon = lo \<rparr>,
                   parameters = \<lparr> baseWind = w, urbanWind = uw, spreadRate = sr,
                                  buildingDensity = d, timeSteps = N, timeInterval = ti \<rparr>,
                   zones = zs,
                   summary = \<lparr> totalTime = of_int N * ti,
                               maxDistance = py_round (sr * ti * of_int N) 2,
                               affectedArea = py_round (pi * (sr * ti * of_int N)\<^sup>2) 2 \<rparr> \<rparr>"
proof -
  define uw where "uw = py_round (w * (1 + 0.22 * (20 / 15))) 2"
  have uw: "calculate_urban_wind init w 20 15 = Inr uw"
    unfolding uw_def by (simp add: calculate_urban_wind_init)
  have uw0: "0 \<le> uw" unfolding uw_def using assms by (intro py_round_nonneg) simp
  obtain sr where sr: "calculate_spread_rate init uw d = Inr sr"
    using uw0 by (simp add: calculate_spread_rate_init)
  have "N \<noteq> 0 \<or> [1..N] = []" by auto
  from zone_loop_returns[OF this, of init la lo sr ti "[]"] obtain zs where
    zs: "zone_loop init la lo sr ti N [1..N] [] = Inr zs"
    and allz: "list_all2 (zone_at_step init la lo sr ti N) [1..N] zs"
    by auto
  show ?thesis
    using uw uw0 sr zs allz unfolding simulate_def by (intro exI[of _ uw] exI[of _ sr] exI[of _ zs]) simp
qed

lemma simulate_result:
  assumes "0 \<le> w"
  obtains r uw sr where
    "simulate init la lo w d N ti = Inr r"
    "calculate_urban_wind init w 20 15 = Inr uw"
    "0 \<le> uw"
    "calculate_spread_rate init uw d = Inr sr"
    "list_all2 (zone_at_step init la lo sr ti N) [1..N] (zones r)"
    "origin r = \<lparr> lat = la, lon = lo \<rparr>"
    "parameters r = \<lparr> baseWind = w, urbanWind = uw, spreadRate = sr,
                       buildingDensity = d, timeSteps = N, timeInterval = ti \<rparr>"
    "summary r = \<lparr> totalTime = of_int N * ti,
                    maxDistance = py_round (sr * ti * of_int N) 2,
                    affectedArea = py_round (pi * (sr * ti * of_int N)\<^sup>2) 2 \<rparr>"
proof -
  from simulate_returns[OF assms, of d la lo ti N] obtain uw sr zs where
    uw: "calculate_urban_wind init w 20 15 = Inr uw" "0 \<le> uw" and
    sr: "calculate_spread_rate init uw d = Inr sr" and
    allz: "list_all2 (zone_at_step init la lo sr ti N) [1..N] zs" and
    sim: "simulate init la lo w d N ti =
             Inr \<lparr> origin = \<lparr> lat = la, lon = lo \<rparr>,
                   parameters = \<lparr> baseWind = w, urbanWind = uw, spreadRate = sr,
                                  buildingDensity = d, timeSteps = N, timeInterval = ti \<rparr>,
                   zones = zs,
                   summary = \<lparr> totalTime = of_int N * ti,
                               maxDistance = py_round (sr * ti * of_int N) 2,
                               affectedArea = py_round (pi * (sr * ti * of_int N)\<^sup>2) 2 \<rparr> \<rparr>"
    by blast
  show thesis
    by (rule that[OF sim uw sr]) (simp_all add: allz)
qed

subsection \<open>The zones of a result\<close>

lemma zones_nth:
  assumes "list_all2 (zone_at_step self la lo sr ti N) [1..N] zs"
  shows "length zs = nat N"
    and "i < nat N \<Longrightarrow> zone_at_step self la lo sr ti N (int i + 1) (zs ! i)"
proof -
  show len: "length zs = nat N"
    using list_all2_lengthD[OF assms] by simp
  assume i: "i < nat N"
  then have "[1..N] ! i = 1 + int i" by (intro nth_upto) linarith
  moreover have "zone_at_step self la lo sr ti N ([1..N] ! i) (zs ! i)"
    using list_all2_nthD[OF assms, of i] i by simp
  ultimately show "zone_at_step self la lo sr ti N (int i + 1) (zs ! i)"
    by (simp add: add.commute)
qed

lemma zones_set:
  assumes "list_all2 (zone_at_step self la lo sr ti N) [1..N] zs" "z \<in> set zs"
  obtains k where "1 \<le> k" "k \<le> N" "zone_at_step self la lo sr ti N k z"
proof -
  from assms(2) obtain i where i: "i < length zs" "z = zs ! i" by (auto simp: in_set_conv_nth)
  then have iN: "i < nat N" using zones_nth(1)[OF assms(1)] by simp
  from zones_nth(2)[OF assms(1) iN] i(2) have "zone_at_step self la lo sr ti N (int i + 1) z" by simp
  moreover have "1 \<le> int i + 1" "int i + 1 \<le> N" using iN by linarith+
  ultimately show thesis by (rule that[rotated 2])
qed

lemma zones_last:
  assumes "list_all2 (zone_at_step self la lo sr ti N) [1..N] zs" "1 \<le> N"
  shows "zone_at_step self la lo sr ti N N (last zs)"
proof -
  have len: "length zs = nat N" using zones_nth(1)[OF assms(1)] .
  then have ne: "zs \<noteq> []" using assms(2) by auto
  have "nat N - 1 < nat N" using assms(2) by simp
  from zones_nth(2)[OF assms(1) this] have "zone_at_step self la lo sr ti N N (zs ! (nat N - 1))"
    using assms(2) by (simp add: of_nat_diff)
  then show ?thesis using last_conv_nth[OF ne] len by simp
qed

text \<open>
  The shape of every result that \<^verbatim>\<open>simulate\<close> returns: one zone per step, in step order,
  each with the 16 perimeter points at the bearings \<open>j * 22.5\<close>.
\<close>

lemma returned_zones_in_step_order:
  assumes "simulate self origin_lat origin_lon wind_speed building_density time_steps time_interval
             = Inr r"
  shows "length (zones r) = nat time_steps \<and>
         (\<forall>i < nat time_steps.
            step (zones r ! i) = int i + 1 \<and>
            time (zones r ! i) = (real i + 1) * time_interval \<and>
            distance (zones r ! i)
              = py_round (spreadRate (parameters r) * time_interval * (real i + 1)) 2 \<and>
            length (perimeter (zones r ! i)) = 16 \<and>
            (\<forall>j < 16.
               calculate_spread_direction self origin_lat origin_lon (real j * 22.5)
                 (spreadRate (parameters r) * time_interval * (real i + 1))
               = Inr (lat (perimeter (zones r ! i) ! j), lon (perimeter (zones r ! i) ! j))))"
proof -
  from simulate_returned[OF assms] obtain uw sr where
    allz: "list_all2 (zone_at_step self origin_lat origin_lon sr time_interval time_steps)
             [1..time_steps] (zones r)" and
    par: "parameters r = \<lparr> baseWind = wind_speed, urbanWind = uw, spreadRate = sr,
                       buildingDensity = building_density, timeSteps = time_steps,
                       timeInterval = time_interval \<rparr>"
    by blast
  have sr: "spreadRate (parameters r) = sr" unfolding par by simp
  have each: "step (zones r ! i) = int i + 1 \<and>
              time (zones r ! i) = (real i + 1) * time_interval \<and>
              distance (zones r ! i) = py_round (sr * time_interval * (real i + 1)) 2 \<and>
              length (perimeter (zones r ! i)) = 16 \<and>
              (\<forall>j < 16.
                 calculate_spread_direction self origin_lat origin_lon (real j * 22.5)
                   (sr * time_interval * (real i + 1))
                 = Inr (lat (perimeter (zones r ! i) ! j), lon (perimeter (zones r ! i) ! j)))"
    if i: "i < nat time_steps" for i
  proof -
    have z: "zone_at_step self origin_lat origin_lon sr time_interval time_steps (int i + 1)
               (zones r ! i)"
      using zones_nth(2)[OF allz i] .
    then have per: "list_all2
       (\<lambda>j p. calculate_spread_direction self origin_lat origin_lon (22.5 * real j)
                  (sr * time_interval * of_int (int i + 1)) = Inr (lat p, lon p))
       [0..<16] (perimeter (zones r ! i))"
      unfolding zone_at_step_def by blast
    have len: "length (perimeter (zones r ! i)) = 16"
      using list_all2_lengthD[OF per] by simp
    have pts: "calculate_spread_direction self origin_lat origin_lon (real j * 22.5)
                   (sr * time_interval * (real i + 1))
                 = Inr (lat (perimeter (zones r ! i) ! j), lon (perimeter (zones r ! i) ! j))"
      if j: "j < 16" for j
      using list_all2_nthD[OF per, of j] j by (simp add: mult.commute add.commute)
    from z have "step (zones r ! i) = int i + 1"
      and "time (zones r ! i) = (real i + 1) * time_interval"
      and "distance (zones r ! i) = py_round (sr * time_interval * (real i + 1)) 2"
      unfolding zone_at_step_def by (simp_all add: add.commute)
    with len pts show ?thesis by blast
  qed
  show ?thesis unfolding sr using zones_nth(1)[OF allz] each by blast
qed

subsection \<open>The intensities along the steps\<close>

lemma intensity_bounds:
  assumes "1 \<le> k" "k \<le> N"
  shows "1 / 2 \<le> py_round (1 - (of_int k / of_int N) * 0.5) 3"
    and "py_round (1 - (of_int k / of_int N) * 0.5) 3 \<le> 1"
proof -
  have N: "(0::real) < of_int N" using assms by simp
  have q0: "(0::real) \<le> of_int k / of_int N" using assms by simp
  have q1: "(of_int k :: real) / of_int N \<le> 1" using assms N by simp
  have "py_round (500 / 10 ^ 3) 3 \<le> py_round (1 - (of_int k / of_int N) * 0.5) 3"
    using q1 by (intro py_round_mono) simp
  then show "1 / 2 \<le> py_round (1 - (of_int k / of_int N) * 0.5) 3"
    using py_round_of_int[of 500 3] by simp
  have "py_round (1 - (of_int k / of_int N) * 0.5) 3 \<le> py_round (1000 / 10 ^ 3) 3"
    using q0 by (intro py_round_mono) simp
  then show "py_round (1 - (of_int k / of_int N) * 0.5) 3 \<le> 1"
    using py_round_of_int[of 1000 3] by simp
qed

lemma intensity_last: "N \<noteq> 0 \<Longrightarrow> py_round (1 - (of_int N / of_int N) * 0.5) 3 = 1 / 2"
  using py_round_of_int[of 500 3] by simp

lemma intensity_mono:
  assumes "0 < N" "k \<le> k'"
  shows "py_round (1 - (of_int k' / of_int N) * 0.5) 3 \<le> py_round (1 - (of_int k / of_int N) * 0.5) 3"
proof -
  have "(of_int k :: real) / of_int N \<le> of_int k' / of_int N"
    using assms by (simp add: divide_right_mono)
  then show ?thesis by (intro py_round_mono) simp
qed

lemma intensity_gap:
  assumes "0 < N" "N < 500" "k < k'"
  shows "(1 - (of_int k' / of_int N) * 0.5) + 1 / 1000 < 1 - (of_int k / of_int N) * (0.5 :: real)"
proof -
  have "k + 1 \<le> k'" using assms(3) by simp
  then have "(of_int k :: real) + 1 \<le> of_int k'" by linarith
  then have "((of_int k :: real) + 1) / of_int N \<le> of_int k' / of_int N"
    using assms(1) by (simp add: divide_right_mono)
  moreover have "(1::real) / 500 < 1 / of_int N"
    using assms(1,2) by (simp add: field_simps)
  ultimately show ?thesis by (simp add: add_divide_distrib)
qed

lemma intensity_strict:
  assumes "0 < N" "N < 500" "k < k'"
  shows "py_round (1 - (of_int k' / of_int N) * 0.5) 3 < py_round (1 - (of_int k / of_int N) * 0.5) 3"
  using intensity_gap[OF assms]
    py_round_upper[of "1 - (of_int k' / of_int N) * 0.5" 3]
    py_round_lower[of "1 - (of_int k / of_int N) * 0.5" 3]
  by simp

lemma intensity_first_below_one:
  assumes "0 < N" "N < 500"
  shows "py_round (1 - (of_int 1 / of_int N) * 0.5) 3 < 1"
  using intensity_gap[OF assms, of 0 1]
    py_round_upper[of "1 - (of_int 1 / of_int N) * 0.5" 3]
  by simp

subsection \<open>Zero distance, and density 100 and above\<close>

lemma spread_direction_at_zero:
  "calculate_spread_direction self origin_lat origin_lon angle_deg 0
     = Inr (degrees (arcsin (sin (radians origin_lat))), origin_lon)"
proof -
  have asin: "py_asin (sin (radians origin_lat)) = Inr (arcsin (sin (radians origin_lat)))"
    by (simp add: py_asin_def)
  have "0 \<le> 1 - sin (radians origin_lat) * sin (radians origin_lat)"
    using sin_squared_eq[of "radians origin_lat"] by (simp add: power2_eq_square)
  then have at0: "atan2 0 (1 - sin (radians origin_lat) * sin (radians origin_lat)) = 0"
    by (simp add: atan2_def)
  have deg_rad: "degrees (radians x) = x" for x by (simp add: degrees_def radians_def)
  show ?thesis
    unfolding calculate_spread_direction_def Let_def by (simp add: asin at0 deg_rad)
qed

lemma latitude_round_trip:
  assumes "- 90 \<le> origin_lat" "origin_lat \<le> 90"
  shows "degrees (arcsin (sin (radians origin_lat))) = origin_lat"
proof -
  have "- (pi / 2) \<le> radians origin_lat"
    using assms(1) mult_right_mono[of "- 90" origin_lat "pi / 180"] by (simp add: radians_def)
  moreover have "radians origin_lat \<le> pi / 2"
    using assms(2) mult_right_mono[of origin_lat 90 "pi / 180"] by (simp add: radians_def)
  ultimately show ?thesis by (simp add: arcsin_sin degrees_def radians_def)
qed

lemma spread_base_bounds:
  fixes x :: real
  shows "43.95 \<le> (3000 * 0.8 * (1 + 0.4 * x powr 0.02526)) / (0.035 * 2 * 780)"
proof -
  have "0 \<le> x powr 0.02526" by simp
  then have "(3000 * 0.8 * (1 + 0.4 * 0)) / (0.035 * 2 * 780)
               \<le> (3000 * 0.8 * (1 + 0.4 * x powr 0.02526)) / (0.035 * 2 * 780)"
    by (intro divide_right_mono mult_left_mono add_left_mono) simp_all
  then show ?thesis by simp
qed

lemma spread_base_upper:
  fixes x :: real
  assumes "1 \<le> x" "x \<le> 10"
  shows "(3000 * 0.8 * (1 + 0.4 * x powr 0.02526)) / (0.035 * 2 * 780) \<le> 220"
proof -
  have "x powr 0.02526 \<le> x powr 1"
    using assms(1) by (intro powr_mono) simp_all
  then have "x powr 0.02526 \<le> 10" using assms by simp
  then have "(3000 * 0.8 * (1 + 0.4 * x powr 0.02526)) / (0.035 * 2 * 780)
               \<le> (3000 * 0.8 * (1 + 0.4 * 10)) / (0.035 * 2 * 780)"
    by (intro divide_right_mono mult_left_mono add_left_mono) simp_all
  then show ?thesis by simp
qed

lemma spread_rate_above_full_density:
  assumes "100 < d" "0 \<le> w"
  obtains s where
    "calculate_spread_rate init w d = Inr s"
    "s \<le> 0"
    "100.002 \<le> d \<Longrightarrow> s < 0"
    "101 \<le> d \<Longrightarrow> s \<le> - 0.439"
proof -
  define B where "B = (3000 * 0.8 * (1 + 0.4 * (w / 3.6) powr 0.02526)) / (0.035 * 2 * 780)"
  define s where "s = py_round (B * (1 - d / 100)) 3"
  have B: "43.95 \<le> B" unfolding B_def by (rule spread_base_bounds)
  have rate: "calculate_spread_rate init w d = Inr s"
    using assms(2) unfolding s_def B_def by (simp add: calculate_spread_rate_init)
  have neg: "1 - d / 100 \<le> 0" using assms(1) by simp
  have "B * (1 - d / 100) \<le> 0"
    using B neg by (intro mult_nonneg_nonpos) simp_all
  then have s0: "s \<le> 0" unfolding s_def by (rule py_round_nonpos)
  have scale: "B * (1 - d / 100) \<le> 43.95 * (1 - d / 100)"
    using B neg by (intro mult_right_mono_neg) simp_all
  have up: "s \<le> B * (1 - d / 100) + 1 / (2 * 10 ^ 3)"
    unfolding s_def by (rule py_round_upper)
  have s1: "s < 0" if "100.002 \<le> d"
  proof -
    have "43.95 * (1 - d / 100) \<le> 43.95 * (1 - 100.002 / 100)" using that by simp
    with scale up show ?thesis by simp
  qed
  have s2: "s \<le> - 0.439" if "101 \<le> d"
  proof -
    have "43.95 * (1 - d / 100) \<le> 43.95 * (1 - 101 / 100)" using that by simp
    with scale up show ?thesis by simp
  qed
  show thesis by (rule that[OF rate s0 s1 s2])
qed

section \<open>The claims\<close>

subsection \<open>C1: \<^verbatim>\<open>time_steps = 0\<close>\<close>

text \<open>
  Claim C1 says that every call with \<^verbatim>\<open>time_steps = 0\<close> fails with a division by zero in the
  intensity calculation. The division \<^verbatim>\<open>step / time_steps\<close> stands in the body of
  \<^verbatim>\<open>for step in range(1, time_steps + 1)\<close>, and \<^verbatim>\<open>range(1, 1)\<close> is empty: the body never runs.
  At the default parameters and \<^verbatim>\<open>time_steps = 0\<close> the call returns a result without zones.
\<close>

theorem zero_steps_counterexample:
  "map_sum id zones (simulate init 34.0522 (- 118.2437) 15 40 0 5) = Inr []"
  using simulate_returns[of 15 40 "34.0522" "- 118.2437" 5 0] by auto

text \<open>
  Claim C1 as amended. With \<^verbatim>\<open>time_steps = 0\<close>, \<^verbatim>\<open>simulate\<close> never raises a division by zero,
  whatever the other arguments; for a wind speed that is not negative it returns a result
  with no zones and a summary of zeros.
\<close>

theorem zero_steps_returns:
  "simulate init origin_lat origin_lon wind_speed building_density 0 time_interval
     \<noteq> Inl ZeroDivisionError
   \<and> (0 \<le> wind_speed \<longrightarrow>
        (\<exists>r. simulate init origin_lat origin_lon wind_speed building_density 0 time_interval = Inr r
            \<and> zones r = []
            \<and> totalTime (summary r) = 0
            \<and> maxDistance (summary r) = 0
            \<and> affectedArea (summary r) = 0))"
proof
  show "simulate init origin_lat origin_lon wind_speed building_density 0 time_interval
          \<noteq> Inl ZeroDivisionError"
    unfolding simulate_def
    by (simp add: calculate_urban_wind_init calculate_spread_rate_init)
  show "0 \<le> wind_speed \<longrightarrow>
        (\<exists>r. simulate init origin_lat origin_lon wind_speed building_density 0 time_interval = Inr r
            \<and> zones r = []
            \<and> totalTime (summary r) = 0
            \<and> maxDistance (summary r) = 0
            \<and> affectedArea (summary r) = 0)"
  proof
    assume "0 \<le> wind_speed"
    from simulate_returns[OF this, of building_density origin_lat origin_lon time_interval 0]
    show "\<exists>r. simulate init origin_lat origin_lon wind_speed building_density 0 time_interval = Inr r
            \<and> zones r = []
            \<and> totalTime (summary r) = 0
            \<and> maxDistance (summary r) = 0
            \<and> affectedArea (summary r) = 0"
      by (auto simp: py_round_zero)
  qed
qed

text \<open>The theorem at the default parameters.\<close>

theorem zero_steps_returns_witness:
  "\<exists>r. simulate init 34.0522 (- 118.2437) 15 40 0 5 = Inr r
            \<and> zones r = []
            \<and> totalTime (summary r) = 0
            \<and> maxDistance (summary r) = 0
            \<and> affectedArea (summary r) = 0"
  using zero_steps_returns[of "34.0522" "- 118.2437" 15 40 5] by simp

subsection \<open>C2: the range of the intensity\<close>

text \<open>
  Claim C2 puts every intensity in the half-open interval \<open>(0.5, 1.0]\<close>, strictly above
  \<open>0.5\<close>. The last step has \<^verbatim>\<open>step / time_steps = 1\<close> and so the intensity \<open>0.5\<close> itself: with
  \<^verbatim>\<open>time_steps = 1\<close> and the other parameters at their defaults the only zone has intensity
  \<open>0.5\<close>.
\<close>

theorem intensity_half_counterexample:
  "map_sum id (\<lambda>r. map intensity (zones r)) (simulate init 34.0522 (- 118.2437) 15 40 1 5)
     = Inr [1 / 2]"
proof -
  obtain r uw sr where
    sim: "simulate init 34.0522 (- 118.2437) 15 40 1 5 = Inr r" and
    allz: "list_all2 (zone_at_step init 34.0522 (- 118.2437) sr 5 1) [1..1] (zones r)"
    using simulate_result[of 15 "34.0522" "- 118.2437" 40 1 5, OF order.strict_implies_order[OF zero_less_numeral]]
    by metis
  from zones_nth[OF allz] have len: "length (zones r) = 1"
    and z: "zone_at_step init 34.0522 (- 118.2437) sr 5 1 1 (zones r ! 0)" by simp_all
  from z have "intensity (zones r ! 0) = 1 / 2"
    unfolding zone_at_step_def using intensity_last[of 1] by simp
  moreover from len have "zones r = [zones r ! 0]"
    by (cases "zones r") simp_all
  ultimately have "map intensity (zones r) = [1 / 2]" by (metis list.simps(8,9))
  then show ?thesis using sim by simp
qed

text \<open>
  Claim C2 as amended. For every valid input (\<^verbatim>\<open>time_steps \<ge> 1\<close>) every zone that
  \<^verbatim>\<open>simulate\<close> produces has an intensity in the closed interval \<open>[0.5, 1.0]\<close>.
\<close>

theorem intensity_in_closed_interval:
  assumes "1 \<le> time_steps" "0 \<le> wind_speed"
  shows "\<exists>r. simulate init origin_lat origin_lon wind_speed building_density time_steps time_interval
               = Inr r \<and>
             zones r \<noteq> [] \<and>
             (\<forall>z \<in> set (zones r). 1 / 2 \<le> intensity z \<and> intensity z \<le> 1)"
proof -
  obtain r uw sr where
    sim: "simulate init origin_lat origin_lon wind_speed building_density time_steps time_interval
            = Inr r" and
    allz: "list_all2 (zone_at_step init origin_lat origin_lon sr time_interval time_steps)
             [1..time_steps] (zones r)"
    using simulate_result[OF assms(2)] by metis
  have "length (zones r) = nat time_steps" using zones_nth(1)[OF allz] .
  then have ne: "zones r \<noteq> []" using assms(1) by auto
  have "1 / 2 \<le> intensity z \<and> intensity z \<le> 1" if "z \<in> set (zones r)" for z
  proof -
    from zones_set[OF allz that] obtain k where
      k: "1 \<le> k" "k \<le> time_steps" and
      z: "zone_at_step init origin_lat origin_lon sr time_interval time_steps k z" by blast
    from z have "intensity z = py_round (1 - (of_int k / of_int time_steps) * 0.5) 3"
      unfolding zone_at_step_def by blast
    with intensity_bounds[OF k] show ?thesis by simp
  qed
  with sim ne show ?thesis by blast
qed

text \<open>The theorem at the default parameters.\<close>

theorem intensity_in_closed_interval_witness:
  "\<exists>r. simulate init 34.0522 (- 118.2437) 15 40 10 5 = Inr r \<and>
       zones r \<noteq> [] \<and>
       (\<forall>z \<in> set (zones r). 1 / 2 \<le> intensity z \<and> intensity z \<le> 1)"
  using intensity_in_closed_interval[of 10 15 "34.0522" "- 118.2437" 40 5] by simp

subsection \<open>C3: the summary\<close>

text \<open>
  Claim C3 says that \<^verbatim>\<open>summary.affectedArea\<close> is \<open>pi\<close> times the square of
  \<^verbatim>\<open>summary.maxDistance\<close>, rounded to 2 decimals. \<^verbatim>\<open>maxDistance\<close> is itself rounded to 2
  decimals, and the area is computed from the unrounded product
  \<^verbatim>\<open>spread_rate * time_interval * time_steps\<close>. With wind speed 2.7835, building density 0,
  one step and a time interval of 1 the urban wind is 3.6, the spread rate 61.538 and
  \<^verbatim>\<open>maxDistance\<close> 61.54; the area is \<open>pi * 61.538\<^sup>2\<close> rounded, which is below
  \<open>pi * 61.54\<^sup>2\<close> rounded.
\<close>

theorem area_from_rounded_distance_counterexample:
  "map_sum id (\<lambda>r. affectedArea (summary r) = py_round (pi * (maxDistance (summary r))\<^sup>2) 2)
     (simulate init 34.0522 (- 118.2437) 2.7835 0 1 1) = Inr False"
proof -
  have w: "(0::real) \<le> 2.7835" by simp
  obtain r uw sr where
    sim: "simulate init 34.0522 (- 118.2437) 2.7835 0 1 1 = Inr r" and
    uw: "calculate_urban_wind init 2.7835 20 15 = Inr uw" and
    sr: "calculate_spread_rate init uw 0 = Inr sr" and
    summ: "summary r = \<lparr> totalTime = of_int 1 * 1,
                    maxDistance = py_round (sr * 1 * of_int 1) 2,
                    affectedArea = py_round (pi * (sr * 1 * of_int 1)\<^sup>2) 2 \<rparr>"
    using simulate_result[OF w, of "34.0522" "- 118.2437" 0 1 1] by metis
  have "calculate_urban_wind init 2.7835 20 15 = Inr 3.6"
    unfolding calculate_urban_wind_init py_round_def round_half_even_def Let_def by simp
  with uw have uw_val: "uw = 3.6" by simp
  have "calculate_spread_rate init 3.6 0 = Inr 61.538"
    unfolding calculate_spread_rate_init py_round_def round_half_even_def Let_def by simp
  with sr uw_val have sr_val: "sr = 61.538" by simp
  have md: "maxDistance (summary r) = 61.54"
    unfolding summ sr_val py_round_def round_half_even_def Let_def by simp
  have area: "affectedArea (summary r) = py_round (pi * (61.538)\<^sup>2) 2"
    unfolding summ sr_val by simp
  have gap: "pi * (61.538)\<^sup>2 + 2 / 100 < pi * (61.54)\<^sup>2"
  proof -
    have "pi * ((61.54)\<^sup>2 - (61.538)\<^sup>2) \<ge> 2 * ((61.54)\<^sup>2 - (61.538)\<^sup>2)"
      by (intro mult_right_mono pi_ge_two) (simp add: power2_eq_square)
    then show ?thesis by (simp add: algebra_simps power2_eq_square)
  qed
  have "py_round (pi * (61.538)\<^sup>2) 2 < py_round (pi * (61.54)\<^sup>2) 2"
    using gap py_round_upper[of "pi * (61.538)\<^sup>2" 2] py_round_lower[of "pi * (61.54)\<^sup>2" 2]
    by simp
  then have "affectedArea (summary r) \<noteq> py_round (pi * (maxDistance (summary r))\<^sup>2) 2"
    unfolding md area by simp
  then show ?thesis using sim by simp
qed

text \<open>
  Claim C3 as amended. For every valid input \<^verbatim>\<open>summary.totalTime\<close> is
  \<^verbatim>\<open>time_steps * time_interval\<close>; \<^verbatim>\<open>summary.maxDistance\<close> is
  \<^verbatim>\<open>spread_rate * time_interval * time_steps\<close> rounded to 2 decimals and equals the distance of
  the last zone; and \<^verbatim>\<open>summary.affectedArea\<close> is \<open>pi\<close> times the square of the unrounded
  product \<^verbatim>\<open>spread_rate * time_interval * time_steps\<close>, rounded to 2 decimals.
\<close>

theorem summary_formulas:
  assumes "1 \<le> time_steps" "0 \<le> wind_speed"
  shows "\<exists>r. simulate init origin_lat origin_lon wind_speed building_density time_steps time_interval
               = Inr r \<and>
             totalTime (summary r) = of_int time_steps * time_interval \<and>
             maxDistance (summary r)
               = py_round (spreadRate (parameters r) * time_interval * of_int time_steps) 2 \<and>
             maxDistance (summary r) = distance (last (zones r)) \<and>
             affectedArea (summary r)
               = py_round (pi * (spreadRate (parameters r) * time_interval * of_int time_steps)\<^sup>2) 2"
proof -
  obtain r uw sr where
    sim: "simulate init origin_lat origin_lon wind_speed building_density time_steps time_interval
            = Inr r" and
    allz: "list_all2 (zone_at_step init origin_lat origin_lon sr time_interval time_steps)
             [1..time_steps] (zones r)" and
    par: "parameters r = \<lparr> baseWind = wind_speed, urbanWind = uw, spreadRate = sr,
                       buildingDensity = building_density, timeSteps = time_steps,
                       timeInterval = time_interval \<rparr>" and
    summ: "summary r = \<lparr> totalTime = of_int time_steps * time_interval,
                    maxDistance = py_round (sr * time_interval * of_int time_steps) 2,
                    affectedArea = py_round (pi * (sr * time_interval * of_int time_steps)\<^sup>2) 2 \<rparr>"
    using simulate_result[OF assms(2)] by metis
  have "distance (last (zones r)) = py_round (sr * time_interval * of_int time_steps) 2"
    using zones_last[OF allz assms(1)] unfolding zone_at_step_def by blast
  with sim summ par show ?thesis by (intro exI[of _ r]) simp
qed

text \<open>The theorem at the default parameters.\<close>

theorem summary_formulas_witness:
  "\<exists>r. simulate init 34.0522 (- 118.2437) 15 40 10 5 = Inr r \<and>
       totalTime (summary r) = 50 \<and>
       maxDistance (summary r) = distance (last (zones r))"
proof -
  have a: "(1::int) \<le> 10" and b: "(0::real) \<le> 15" by simp_all
  from summary_formulas[OF a b, of "34.0522" "- 118.2437" 40 5] obtain r where
    "simulate init 34.0522 (- 118.2437) 15 40 10 5 = Inr r"
    "totalTime (summary r) = of_int 10 * 5"
    "maxDistance (summary r) = distance (last (zones r))"
    by blast
  then show ?thesis by simp
qed

subsection \<open>C4: building density 100\<close>

text \<open>
  Claim C4 says that at \<^verbatim>\<open>building_density = 100\<close> the spread rate and every distance are 0
  and that all perimeter points are exactly the origin. The last part is a statement about
  the rounding of \<^verbatim>\<open>radians\<close>, \<^verbatim>\<open>sin\<close>, \<^verbatim>\<open>asin\<close> and \<^verbatim>\<open>degrees\<close> in double precision: there
  the latitude \<open>34.0522\<close> comes back from a zero distance as \<open>34.052200000000006\<close>, while in
  the exact arithmetic of this model it comes back unchanged (\<open>spread_direction_at_zero\<close>,
  \<open>latitude_round_trip\<close>). The model cannot tell the two apart, and no theorem is stated for
  this claim.
\<close>

subsection \<open>C5: the spread rate\<close>

text \<open>
  Claim C5. For every wind speed \<open>w \<ge> 0\<close> and building density \<open>d\<close>,
  \<^verbatim>\<open>calculate_spread_rate(w, d)\<close> is
  \<open>((3000 * 0.8 * (1 + 0.4 * (w / 3.6) ^ 0.02526)) / (0.035 * 2 * 780)) * (1 - d / 100)\<close>
  rounded to 3 decimals, the power of \<open>0\<close> being \<open>0\<close> (as \<open>powr\<close> has it), so that at \<open>w = 0\<close>
  the bracket is \<open>1\<close>; and \<^verbatim>\<open>simulate\<close> passes the urban wind, the result of
  \<^verbatim>\<open>calculate_urban_wind\<close> on the base wind, to this function.
\<close>

theorem spread_rate_formula:
  assumes "0 \<le> w"
  shows "calculate_spread_rate init w d
           = Inr (py_round (((3000 * 0.8 * (1 + 0.4 * (w / 3.6) powr 0.02526)) / (0.035 * 2 * 780))
                              * (1 - d / 100)) 3) \<and>
         calculate_spread_rate init 0 d
           = Inr (py_round (((3000 * 0.8 * 1) / (0.035 * 2 * 780)) * (1 - d / 100)) 3) \<and>
         (\<exists>r urban_wind.
            simulate init origin_lat origin_lon w d time_steps time_interval = Inr r \<and>
            baseWind (parameters r) = w \<and>
            calculate_urban_wind init w 20 15 = Inr urban_wind \<and>
            urbanWind (parameters r) = urban_wind \<and>
            calculate_spread_rate init urban_wind d = Inr (spreadRate (parameters r)))"
proof (intro conjI)
  show "calculate_spread_rate init w d
           = Inr (py_round (((3000 * 0.8 * (1 + 0.4 * (w / 3.6) powr 0.02526)) / (0.035 * 2 * 780))
                              * (1 - d / 100)) 3)"
    using assms by (simp add: calculate_spread_rate_init)
  show "calculate_spread_rate init 0 d
           = Inr (py_round (((3000 * 0.8 * 1) / (0.035 * 2 * 780)) * (1 - d / 100)) 3)"
    by (simp add: calculate_spread_rate_init)
  obtain r uw sr where
    "simulate init origin_lat origin_lon w d time_steps time_interval = Inr r"
    "calculate_urban_wind init w 20 15 = Inr uw"
    "calculate_spread_rate init uw d = Inr sr"
    "parameters r = \<lparr> baseWind = w, urbanWind = uw, spreadRate = sr,
                       buildingDensity = d, timeSteps = time_steps,
                       timeInterval = time_interval \<rparr>"
    using simulate_result[OF assms] by metis
  then show "\<exists>r urban_wind.
            simulate init origin_lat origin_lon w d time_steps time_interval = Inr r \<and>
            baseWind (parameters r) = w \<and>
            calculate_urban_wind init w 20 15 = Inr urban_wind \<and>
            urbanWind (parameters r) = urban_wind \<and>
            calculate_spread_rate init urban_wind d = Inr (spreadRate (parameters r))"
    by (intro exI[of _ r] exI[of _ uw]) simp
qed

text \<open>
  The theorem at wind speed 3.6 (1 m/s, whose power is 1) and density 40:
  \<open>3360 / 54.6 * 0.6 = 36.923...\<close>.
\<close>

theorem spread_rate_formula_witness:
  "(0::real) \<le> 3.6 \<and> calculate_spread_rate init 3.6 40 = Inr 36.923"
proof -
  have a: "(0::real) \<le> 3.6" by simp
  have "calculate_spread_rate init 3.6 40
           = Inr (py_round (((3000 * 0.8 * (1 + 0.4 * (3.6 / 3.6) powr 0.02526)) / (0.035 * 2 * 780))
                              * (1 - 40 / 100)) 3)"
    using spread_rate_formula[OF a, of 40] by blast
  then show ?thesis unfolding py_round_def round_half_even_def Let_def by simp
qed

subsection \<open>C6: the intensity, step by step\<close>

text \<open>
  Claim C6 says that the intensities are strictly decreasing across the steps and that the
  first one is strictly below \<open>1.0\<close>. The value stored is rounded to 3 decimals, and with
  \<^verbatim>\<open>time_steps = 4000\<close> the first two unrounded values, \<open>0.999875\<close> and \<open>0.99975\<close>, both round
  to \<open>1.0\<close>: the first intensity is \<open>1.0\<close> and the second is equal to it.
\<close>

theorem intensity_plateau_counterexample:
  "map_sum id (\<lambda>r. (intensity (zones r ! 0), intensity (zones r ! 1)))
     (simulate init 34.0522 (- 118.2437) 15 40 4000 5) = Inr (1, 1)"
proof -
  obtain r uw sr where
    sim: "simulate init 34.0522 (- 118.2437) 15 40 4000 5 = Inr r" and
    allz: "list_all2 (zone_at_step init 34.0522 (- 118.2437) sr 5 4000) [1..4000] (zones r)"
    using simulate_result[of 15 "34.0522" "- 118.2437" 40 4000 5,
            OF order.strict_implies_order[OF zero_less_numeral]]
    by metis
  have z0: "zone_at_step init 34.0522 (- 118.2437) sr 5 4000 1 (zones r ! 0)"
    using zones_nth(2)[OF allz, of 0] by simp
  have z1: "zone_at_step init 34.0522 (- 118.2437) sr 5 4000 2 (zones r ! 1)"
    using zones_nth(2)[OF allz, of 1] by simp
  have "py_round (1 - (of_int 1 / of_int 4000) * 0.5) 3 = 1"
    unfolding py_round_def round_half_even_def Let_def by simp
  with z0 have i0: "intensity (zones r ! 0) = 1" unfolding zone_at_step_def by simp
  have "py_round (1 - (of_int 2 / of_int 4000) * 0.5) 3 = 1"
    unfolding py_round_def round_half_even_def Let_def by simp
  with z1 have i1: "intensity (zones r ! 1) = 1" unfolding zone_at_step_def by simp
  show ?thesis using sim i0 i1 by simp
qed

text \<open>
  Claim C6 as amended. For every valid input with \<^verbatim>\<open>time_steps = N \<ge> 1\<close> the intensity of
  the zone at step \<open>k\<close> is \<^verbatim>\<open>round(1.0 - (k / N) * 0.5, 3)\<close>; the intensities never increase
  from one step to the next, the first is at most \<open>1.0\<close>, and the last is exactly \<open>0.5\<close>
  (so \<^verbatim>\<open>time_steps = 1\<close> gives one zone of intensity \<open>0.5\<close>). When \<open>N < 500\<close>, two
  consecutive unrounded values are more than \<open>0.001\<close> apart, and then the intensities are
  strictly decreasing and the first is strictly below \<open>1.0\<close>.
\<close>

theorem intensity_schedule:
  assumes "1 \<le> time_steps" "0 \<le> wind_speed"
  shows "\<exists>r. simulate init origin_lat origin_lon wind_speed building_density time_steps time_interval
               = Inr r \<and>
             length (zones r) = nat time_steps \<and>
             (\<forall>i < nat time_steps.
                intensity (zones r ! i)
                  = py_round (1 - ((real i + 1) / of_int time_steps) * 0.5) 3) \<and>
             (\<forall>i j. i \<le> j \<and> j < nat time_steps \<longrightarrow>
                intensity (zones r ! j) \<le> intensity (zones r ! i)) \<and>
             intensity (zones r ! 0) \<le> 1 \<and>
             intensity (last (zones r)) = 1 / 2 \<and>
             (time_steps < 500 \<longrightarrow>
                intensity (zones r ! 0) < 1 \<and>
                (\<forall>i j. i < j \<and> j < nat time_steps \<longrightarrow>
                   intensity (zones r ! j) < intensity (zones r ! i)))"
proof -
  obtain r uw sr where
    sim: "simulate init origin_lat origin_lon wind_speed building_density time_steps time_interval
            = Inr r" and
    allz: "list_all2 (zone_at_step init origin_lat origin_lon sr time_interval time_steps)
             [1..time_steps] (zones r)"
    using simulate_result[OF assms(2)] by metis
  have N: "0 < time_steps" using assms(1) by simp
  have len: "length (zones r) = nat time_steps" using zones_nth(1)[OF allz] .
  have val: "intensity (zones r ! i)
               = py_round (1 - (of_int (int i + 1) / of_int time_steps) * 0.5) 3"
    if "i < nat time_steps" for i
    using zones_nth(2)[OF allz that] unfolding zone_at_step_def by blast
  have formula: "\<forall>i < nat time_steps.
                intensity (zones r ! i)
                  = py_round (1 - ((real i + 1) / of_int time_steps) * 0.5) 3"
    using val by (simp add: add.commute)
  have mono: "\<forall>i j. i \<le> j \<and> j < nat time_steps \<longrightarrow>
                intensity (zones r ! j) \<le> intensity (zones r ! i)"
  proof (intro allI impI)
    fix i j assume ij: "i \<le> j \<and> j < nat time_steps"
    then have "i < nat time_steps" "j < nat time_steps" "int i + 1 \<le> int j + 1" by simp_all
    then show "intensity (zones r ! j) \<le> intensity (zones r ! i)"
      using intensity_mono[OF N, of "int i + 1" "int j + 1"] val by simp
  qed
  have zero: "0 < nat time_steps" using N by simp
  have first: "intensity (zones r ! 0) \<le> 1"
    using val[OF zero] intensity_bounds(2)[of "int 0 + 1" time_steps] assms(1) by simp
  have "intensity (last (zones r)) = py_round (1 - (of_int time_steps / of_int time_steps) * 0.5) 3"
    using zones_last[OF allz assms(1)] unfolding zone_at_step_def by blast
  then have final: "intensity (last (zones r)) = 1 / 2"
    using intensity_last[of time_steps] N by simp
  have strict: "intensity (zones r ! 0) < 1 \<and>
                (\<forall>i j. i < j \<and> j < nat time_steps \<longrightarrow>
                   intensity (zones r ! j) < intensity (zones r ! i))"
    if small: "time_steps < 500"
  proof (intro conjI allI impI)
    show "intensity (zones r ! 0) < 1"
      using val[OF zero] intensity_first_below_one[OF N small] by simp
    fix i j assume ij: "i < j \<and> j < nat time_steps"
    then have "i < nat time_steps" "j < nat time_steps" "int i + 1 < int j + 1" by simp_all
    then show "intensity (zones r ! j) < intensity (zones r ! i)"
      using intensity_strict[OF N small, of "int i + 1" "int j + 1"] val by simp
  qed
  from sim len formula mono first final strict show ?thesis by blast
qed

text \<open>The theorem at \<^verbatim>\<open>time_steps = 1\<close>: one zone, of intensity \<open>0.5\<close>.\<close>

theorem intensity_schedule_witness:
  "\<exists>r. simulate init 34.0522 (- 118.2437) 15 40 1 5 = Inr r \<and>
       length (zones r) = 1 \<and>
       intensity (last (zones r)) = 1 / 2"
proof -
  have a: "(1::int) \<le> 1" and b: "(0::real) \<le> 15" by simp_all
  from intensity_schedule[OF a b, of "34.0522" "- 118.2437" 40 5] obtain r where
    "simulate init 34.0522 (- 118.2437) 15 40 1 5 = Inr r"
    "length (zones r) = nat 1"
    "intensity (last (zones r)) = 1 / 2"
    by blast
  then show ?thesis by simp
qed

subsection \<open>C7: the zones, in step order\<close>

text \<open>
  Claim C7 says that \<^verbatim>\<open>simulate\<close> returns exactly \<open>N\<close> zones for every valid input. The program
  does not: from the origin \<open>(89.986552624, 0)\<close> at the default parameters the perimeter
  point of step 8 at bearing 0 falls on the north pole, the unclamped argument of
  \<^verbatim>\<open>math.asin\<close> is \<open>1.0000000000000002\<close> in double precision, and \<^verbatim>\<open>ValueError\<close> is raised. In
  exact arithmetic the argument is at most 1 (\<open>asin_argument_bounded\<close>), so the failure
  cannot be shown in this model and no theorem is stated for the claim. What the claim says
  about the zones (step, time, distance, 16 perimeter points at the bearings \<open>j * 22.5\<close>)
  holds of every result that is returned: \<open>returned_zones_in_step_order\<close>.
\<close>

subsection \<open>C8: the urban wind\<close>

text \<open>
  Claim C8. For every base wind speed \<open>b\<close> and positive building height and street width,
  \<^verbatim>\<open>calculate_urban_wind\<close> returns \<open>b * (1 + 0.22 * (height / width))\<close> rounded to 2
  decimals; with the defaults 20 and 15 and base wind 15 the result is 19.4.
\<close>

theorem urban_wind_formula:
  assumes "0 < building_height" "0 < street_width"
  shows "calculate_urban_wind init b building_height street_width
           = Inr (py_round (b * (1 + 0.22 * (building_height / street_width))) 2)
         \<and> calculate_urban_wind init 15 20 15 = Inr 19.4"
proof
  show "calculate_urban_wind init b building_height street_width
           = Inr (py_round (b * (1 + 0.22 * (building_height / street_width))) 2)"
    using assms by (simp add: calculate_urban_wind_init)
  have "(15::real) * (1 + 0.22 * (20 / 15)) = 1940 / 10 ^ 2" by simp
  then have "py_round (15 * (1 + 0.22 * (20 / 15))) 2 = 1940 / 10 ^ 2"
    using py_round_of_int[of 1940 2] by simp
  then show "calculate_urban_wind init 15 20 15 = Inr 19.4"
    by (simp add: calculate_urban_wind_init)
qed

text \<open>The theorem at base wind 10, height 30 and width 12.\<close>

theorem urban_wind_formula_witness:
  "(0::real) < 30 \<and> (0::real) < 12 \<and>
   calculate_urban_wind init 10 30 12 = Inr (py_round (10 * (1 + 0.22 * (30 / 12))) 2) \<and>
   calculate_urban_wind init 15 20 15 = Inr 19.4"
  using urban_wind_formula[of 30 12 10] by simp

subsection \<open>C9: zero distance, no movement\<close>

text \<open>
  Claim C9. For every latitude in \<open>[-90, 90]\<close>, every longitude and every bearing,
  \<^verbatim>\<open>calculate_spread_direction(lat, lon, bearing, 0)\<close> returns the point \<open>(lat, lon)\<close>.
  In the exact arithmetic of the model the two points are equal, which is the identity that
  the double-precision results meet up to rounding. The bound on the longitude is not
  needed.
\<close>

theorem zero_distance_no_movement:
  assumes "- 90 \<le> origin_lat" "origin_lat \<le> 90"
  shows "calculate_spread_direction init origin_lat origin_lon angle_deg 0
           = Inr (origin_lat, origin_lon)"
  by (simp add: spread_direction_at_zero latitude_round_trip[OF assms])

text \<open>The theorem at the origin (34.0522, -118.2437) and bearing 45.\<close>

theorem zero_distance_no_movement_witness:
  "- 90 \<le> (34.0522::real) \<and> (34.0522::real) \<le> 90 \<and>
   calculate_spread_direction init 34.0522 (- 118.2437) 45 0 = Inr (34.0522, - 118.2437)"
  using zero_distance_no_movement[of "34.0522" "- 118.2437" 45] by simp

subsection \<open>C10: building density above 100\<close>

text \<open>
  Claim C10 says that every density strictly above 100 gives a strictly negative spread
  rate and strictly negative distances. The spread rate is rounded to 3 decimals: at the
  default wind speed 15 (urban wind 19.4) and density \<open>100.000001\<close> the unrounded rate is
  about \<open>-0.0000006\<close>, which rounds to \<open>0\<close>, and the distance of the zone is \<open>0\<close> as well.
\<close>

theorem barely_above_full_density_counterexample:
  "calculate_spread_rate init 19.4 100.000001 = Inr 0 \<and>
   map_sum id (\<lambda>r. (spreadRate (parameters r), map distance (zones r)))
     (simulate init 34.0522 (- 118.2437) 15 100.000001 1 5) = Inr (0, [0])"
proof -
  define B :: real where
    "B = (3000 * 0.8 * (1 + 0.4 * (19.4 / 3.6) powr 0.02526)) / (0.035 * 2 * 780)"
  have lo: "43.95 \<le> B" unfolding B_def by (rule spread_base_bounds)
  have hi: "B \<le> 220" unfolding B_def by (rule spread_base_upper) simp_all
  have "\<bar>B * (1 - 100.000001 / 100) * 10 ^ 3\<bar> = B / 10 ^ 5"
    using lo by simp
  also have "\<dots> < 1 / 2" using hi by simp
  finally have "round_half_even (B * (1 - 100.000001 / 100) * 10 ^ 3) = 0"
    by (rule rhe_small)
  then have "py_round (B * (1 - 100.000001 / 100)) 3 = 0"
    unfolding py_round_def by simp
  then have rate: "calculate_spread_rate init 19.4 100.000001 = Inr 0"
    unfolding B_def by (simp add: calculate_spread_rate_init)
  have w: "(0::real) \<le> 15" by simp
  obtain r uw sr where
    sim: "simulate init 34.0522 (- 118.2437) 15 100.000001 1 5 = Inr r" and
    uw: "calculate_urban_wind init 15 20 15 = Inr uw" and
    sr: "calculate_spread_rate init uw 100.000001 = Inr sr" and
    allz: "list_all2 (zone_at_step init 34.0522 (- 118.2437) sr 5 1) [1..1] (zones r)" and
    par: "parameters r = \<lparr> baseWind = 15, urbanWind = uw, spreadRate = sr,
                       buildingDensity = 100.000001, timeSteps = 1, timeInterval = 5 \<rparr>"
    using simulate_result[OF w, of "34.0522" "- 118.2437" "100.000001" 1 5] by metis
  have "calculate_urban_wind init 15 20 15 = Inr 19.4"
    unfolding calculate_urban_wind_init py_round_def round_half_even_def Let_def by simp
  with uw have "uw = 19.4" by simp
  with sr rate have sr0: "sr = 0" by simp
  from zones_nth[OF allz] have len: "length (zones r) = 1"
    and z: "zone_at_step init 34.0522 (- 118.2437) sr 5 1 1 (zones r ! 0)" by simp_all
  from z have "distance (zones r ! 0) = 0"
    unfolding zone_at_step_def sr0 by (simp add: py_round_zero)
  moreover from len have "zones r = [zones r ! 0]"
    by (cases "zones r") simp_all
  ultimately have "map distance (zones r) = [0]" by (metis list.simps(8,9))
  then have "map_sum id (\<lambda>r. (spreadRate (parameters r), map distance (zones r)))
     (simulate init 34.0522 (- 118.2437) 15 100.000001 1 5) = Inr (0, [0])"
    using sim par sr0 by simp
  with rate show ?thesis by blast
qed

text \<open>
  Claim C10 as amended. For every building density above 100 and every wind speed that is
  not negative, \<^verbatim>\<open>calculate_spread_rate\<close> returns a spread rate that is not positive, with no
  clamping and no validation, and strictly negative once the density is at least
  \<open>100.002\<close>. \<^verbatim>\<open>simulate\<close> does not check the sign either: every result that it returns
  has the spread rate of this sign and, for a positive time interval, distances that are not
  positive; they are strictly negative when the density is at least 101 and the time
  interval at least 1. That \<^verbatim>\<open>simulate\<close> returns is no part of the statement.
\<close>

theorem spread_above_full_density:
  assumes "100 < building_density" "0 \<le> wind_speed"
  shows "(\<exists>s. calculate_spread_rate init wind_speed building_density = Inr s \<and>
              s \<le> 0 \<and> (100.002 \<le> building_density \<longrightarrow> s < 0)) \<and>
         (\<forall>r. simulate init origin_lat origin_lon wind_speed building_density time_steps
                 time_interval = Inr r \<longrightarrow>
              spreadRate (parameters r) \<le> 0 \<and>
              (100.002 \<le> building_density \<longrightarrow> spreadRate (parameters r) < 0) \<and>
              (0 < time_interval \<longrightarrow> (\<forall>z \<in> set (zones r). distance z \<le> 0)) \<and>
              (101 \<le> building_density \<and> 1 \<le> time_interval \<longrightarrow>
                 (\<forall>z \<in> set (zones r). distance z < 0)))"
proof (intro conjI allI impI)
  show "\<exists>s. calculate_spread_rate init wind_speed building_density = Inr s \<and>
              s \<le> 0 \<and> (100.002 \<le> building_density \<longrightarrow> s < 0)"
    using spread_rate_above_full_density[OF assms] by metis
next
  fix r
  assume ret: "simulate init origin_lat origin_lon wind_speed building_density time_steps
                 time_interval = Inr r"
  from simulate_returned[OF ret] obtain uw sr where
    uw: "calculate_urban_wind init wind_speed 20 15 = Inr uw" and
    sr: "calculate_spread_rate init uw building_density = Inr sr" and
    allz: "list_all2 (zone_at_step init origin_lat origin_lon sr time_interval time_steps)
             [1..time_steps] (zones r)" and
    par: "parameters r = \<lparr> baseWind = wind_speed, urbanWind = uw, spreadRate = sr,
                       buildingDensity = building_density, timeSteps = time_steps,
                       timeInterval = time_interval \<rparr>"
    by blast
  have "uw = py_round (wind_speed * (1 + 0.22 * (20 / 15))) 2"
    using uw by (simp add: calculate_urban_wind_init)
  then have uw0: "0 \<le> uw" using assms(2) by (simp add: py_round_nonneg)
  from spread_rate_above_full_density[OF assms(1) uw0] sr have
    s0: "sr \<le> 0" and
    s1: "100.002 \<le> building_density \<Longrightarrow> sr < 0" and
    s2: "101 \<le> building_density \<Longrightarrow> sr \<le> - 0.439"
    by (metis sum.inject(2))+
  have rate: "spreadRate (parameters r) = sr" unfolding par by simp
  show "spreadRate (parameters r) \<le> 0" unfolding rate by (rule s0)
  show "spreadRate (parameters r) < 0" if "100.002 \<le> building_density"
    unfolding rate using that by (rule s1)
  show "\<forall>z \<in> set (zones r). distance z \<le> 0" if ti: "0 < time_interval"
  proof
    fix z assume "z \<in> set (zones r)"
    from zones_set[OF allz this] obtain k where
      k: "1 \<le> k" and
      z: "zone_at_step init origin_lat origin_lon sr time_interval time_steps k z" by blast
    have "0 \<le> time_interval" using ti by simp
    with s0 have "sr * time_interval \<le> 0" by (rule mult_nonpos_nonneg)
    moreover have "(0::real) \<le> of_int k" using k by simp
    ultimately have "sr * time_interval * of_int k \<le> 0" by (rule mult_nonpos_nonneg)
    then have "py_round (sr * time_interval * of_int k) 2 \<le> 0" by (rule py_round_nonpos)
    with z show "distance z \<le> 0" unfolding zone_at_step_def by simp
  qed
  show "\<forall>z \<in> set (zones r). distance z < 0"
    if big: "101 \<le> building_density \<and> 1 \<le> time_interval"
  proof
    fix z assume "z \<in> set (zones r)"
    from zones_set[OF allz this] obtain k where
      k: "1 \<le> k" and
      z: "zone_at_step init origin_lat origin_lon sr time_interval time_steps k z" by blast
    have ti: "1 \<le> time_interval" and dens: "101 \<le> building_density" using big by simp_all
    have k1: "(1::real) \<le> of_int k" using k by simp
    have tk: "1 \<le> time_interval * of_int k"
      using mult_mono[OF ti k1] ti by simp
    have "sr * (time_interval * of_int k) \<le> sr * 1"
      by (rule mult_left_mono_neg[OF tk s0])
    moreover have "sr * time_interval * of_int k = sr * (time_interval * of_int k)"
      by (rule mult.assoc)
    ultimately have "sr * time_interval * of_int k \<le> - 0.439"
      using s2[OF dens] by linarith
    then have "py_round (sr * time_interval * of_int k) 2 < 0"
      using py_round_upper[of "sr * time_interval * of_int k" 2] by simp
    with z show "distance z < 0" unfolding zone_at_step_def by simp
  qed
qed

text \<open>
  The theorem at density 150, the other parameters at their defaults, where \<^verbatim>\<open>simulate\<close>
  returns: the spread rate and the ten distances are negative.
\<close>

theorem spread_above_full_density_witness:
  "(\<exists>s. calculate_spread_rate init 15 150 = Inr s \<and> s < 0) \<and>
   (\<exists>r. simulate init 34.0522 (- 118.2437) 15 150 10 5 = Inr r \<and>
        length (zones r) = 10 \<and>
        spreadRate (parameters r) < 0 \<and>
        (\<forall>z \<in> set (zones r). distance z < 0))"
proof -
  have a: "(100::real) < 150" and b: "(0::real) \<le> 15" by simp_all
  obtain r uw sr where
    sim: "simulate init 34.0522 (- 118.2437) 15 150 10 5 = Inr r" and
    allz: "list_all2 (zone_at_step init 34.0522 (- 118.2437) sr 5 10) [1..10] (zones r)"
    using simulate_result[OF b, of "34.0522" "- 118.2437" 150 10 5] by metis
  have len: "length (zones r) = 10" using zones_nth(1)[OF allz] by simp
  from spread_above_full_density[OF a b, of "34.0522" "- 118.2437" 10 5] sim len
  show ?thesis by auto
qed

end
